theory Spec2Isabelle
  imports Complex_Main "HOL-Library.Word"
begin

section \<open>Shallow embedding of miniaudio.py\<close>

text \<open>
  The Python module \<^verbatim>\<open>miniaudio.py\<close> wraps the native miniaudio library through cffi.
  Pure helpers are embedded as HOL functions; every \<^verbatim>\<open>raise\<close> is a value of the type
  \<open>error\<close>; objects that are mutated (devices, the callback registry, streaming
  generators) are records that each operation returns updated. Results of native calls
  (\<^verbatim>\<open>lib.ma_...\<close>) are inputs of the model, so that every theorem holds for whatever the
  native library answers.
\<close>

subsection \<open>Exceptions\<close>

text \<open>
  \<open>MiniaudioError\<close> and its subclass \<open>DecodeError\<close> are the module's own exception
  classes, with their message; the others are Python built-ins raised by the module or by
  the interpreter underneath it.
\<close>

datatype error =
    MiniaudioError string
  | DecodeError string
  | ValueError string
  | TypeError string
  | KeyError
  | ZeroDivisionError
  | OverflowError
  | FileNotFoundError

type_synonym byte = "8 word"

subsection \<open>Sample formats\<close>

text \<open>
  The \<^verbatim>\<open>ma_format_*\<close> constants imported from the native library. In Python they are
  integers; only their being pairwise different matters to the module.
\<close>

datatype ma_format =
    ma_format_unknown
  | ma_format_u8
  | ma_format_s16
  | ma_format_s24
  | ma_format_s32
  | ma_format_f32

text \<open>
  An \<^verbatim>\<open>array.array\<close>: its typecode, the size of one item in bytes, and its contents as raw
  bytes (an array of \<open>n\<close> items holds \<open>n * itemsize\<close> bytes).
\<close>

record array =
  typecode :: char
  itemsize :: nat
  raw :: "byte list"

definition len_array :: "array \<Rightarrow> int" where
  "len_array a = int (length (raw a) div itemsize a)"

text \<open>Item sizes of the typecodes the module uses (64-bit Linux values of \<^verbatim>\<open>array.array\<close>).\<close>

definition typecode_itemsize :: "char \<Rightarrow> nat" where
  "typecode_itemsize c =
     (if c = CHR ''b'' then 1 else if c = CHR ''h'' then 2 else if c = CHR ''i'' then 4
      else if c = CHR ''l'' then 8 else if c = CHR ''q'' then 8 else if c = CHR ''f'' then 4
      else 0)"

definition new_array :: "char \<Rightarrow> array" where
  "new_array c = \<lparr>typecode = c, itemsize = typecode_itemsize c, raw = []\<rparr>"

text \<open>\<^verbatim>\<open>array.frombytes\<close>: appends items; a byte count that is no multiple of the item size is a ValueError.\<close>

definition frombytes :: "array \<Rightarrow> byte list \<Rightarrow> error + array" where
  "frombytes a bs =
     (if length bs mod itemsize a \<noteq> 0 then Inl (ValueError ''bytes length not a multiple of item size'')
      else Inr (a\<lparr>raw := raw a @ bs\<rparr>))"

text \<open>\<^verbatim>\<open>_create_int_array\<close>: the first typecode of \<^verbatim>\<open>"bhilq"\<close> with the wanted item size.\<close>

fun create_int_array_loop :: "string \<Rightarrow> nat \<Rightarrow> error + array" where
  "create_int_array_loop [] sz = Inl (ValueError ''cannot create array'')"
| "create_int_array_loop (c # cs) sz =
     (if itemsize (new_array c) = sz then Inr (new_array c) else create_int_array_loop cs sz)"

definition create_int_array :: "nat \<Rightarrow> error + array" where
  "create_int_array sz = create_int_array_loop ''bhilq'' sz"

text \<open>\<^verbatim>\<open>_decode_ma_format\<close>: the sample width of a format and an empty array of its item type.\<close>

definition decode_ma_format :: "ma_format \<Rightarrow> error + (int \<times> array)" where
  "decode_ma_format ma_output_format =
     (if ma_output_format = ma_format_f32 then Inr (4, new_array CHR ''f'')
      else if ma_output_format = ma_format_u8 then
        (case create_int_array 1 of Inl e \<Rightarrow> Inl e | Inr a \<Rightarrow> Inr (1, a))
      else if ma_output_format = ma_format_s16 then
        (case create_int_array 2 of Inl e \<Rightarrow> Inl e | Inr a \<Rightarrow> Inr (2, a))
      else if ma_output_format = ma_format_s32 then
        (case create_int_array 4 of Inl e \<Rightarrow> Inl e | Inr a \<Rightarrow> Inr (4, a))
      else Inl (ValueError ''unsupported miniaudio sample format''))"

text \<open>\<^verbatim>\<open>_ma_format_from_width(sample_width, is_float=False)\<close>, branch by branch.\<close>

definition ma_format_from_width :: "int \<Rightarrow> bool \<Rightarrow> error + ma_format" where
  "ma_format_from_width sample_width is_float =
     (if is_float then Inr ma_format_f32
      else if sample_width = 1 then Inr ma_format_u8
      else if sample_width = 2 then Inr ma_format_s16
      else if sample_width = 4 then Inr ma_format_s32
      else Inl (ValueError ''unsupported sample_width''))"

subsection \<open>File names and the format dispatcher\<close>

text \<open>
  \<^verbatim>\<open>str.lower\<close> on the characters that can occur in the four extensions: the ASCII
  capitals are mapped to their small letters, every other character of the (byte) string
  is kept.
\<close>

definition lower_char :: "char \<Rightarrow> char" where
  "lower_char c =
     (if (65::nat) \<le> of_char c \<and> of_char c \<le> (90::nat) then char_of (of_char c + (32::nat)) else c)"

definition lower :: "string \<Rightarrow> string" where
  "lower s = map lower_char s"

text \<open>\<^verbatim>\<open>str.rfind\<close> for a one-character needle: the last index of it, or \<open>-1\<close>.\<close>

fun rfind_from :: "char \<Rightarrow> string \<Rightarrow> int \<Rightarrow> int \<Rightarrow> int" where
  "rfind_from c [] i found = found"
| "rfind_from c (x # xs) i found = rfind_from c xs (i + 1) (if x = c then i else found)"

definition rfind :: "string \<Rightarrow> char \<Rightarrow> int" where
  "rfind p c = rfind_from c p 0 (- 1)"

text \<open>
  \<^verbatim>\<open>os.path.splitext\<close> of the standard library (\<^verbatim>\<open>genericpath._splitext\<close> with the POSIX
  separator \<open>/\<close>, no alternative separator and the extension separator \<open>.\<close>). The inner
  \<^verbatim>\<open>while\<close> loop skips the leading dots of the base name: it answers whether some
  character between the last separator and the last dot is not a dot.
\<close>

function skip_leading_dots :: "string \<Rightarrow> int \<Rightarrow> int \<Rightarrow> bool" where
  "skip_leading_dots p filenameIndex dotIndex =
     (if filenameIndex < dotIndex then
        (if take 1 (drop (nat filenameIndex) p) \<noteq> ''.'' then True
         else skip_leading_dots p (filenameIndex + 1) dotIndex)
      else False)"
  by pat_completeness auto
termination
  by (relation "measure (\<lambda>(p, filenameIndex, dotIndex). nat (dotIndex - filenameIndex))") auto

declare skip_leading_dots.simps [simp del]

definition splitext :: "string \<Rightarrow> string \<times> string" where
  "splitext p =
     (let sepIndex = rfind p CHR ''/'';
          dotIndex = rfind p CHR ''.''
      in if dotIndex > sepIndex \<and> skip_leading_dots p (sepIndex + 1) dotIndex
         then (take (nat dotIndex) p, drop (nat dotIndex) p)
         else (p, []))"

text \<open>The four decoder families a file name can be dispatched to.\<close>

datatype adapter = Vorbis | MP3 | FLAC | WAV

text \<open>
  \<^verbatim>\<open>get_file_info\<close> and \<^verbatim>\<open>read_file\<close>. The codec-specific functions they delegate to
  (\<^verbatim>\<open>vorbis_get_file_info\<close>, \<^verbatim>\<open>mp3_get_file_info\<close>, ... and \<^verbatim>\<open>vorbis_read_file\<close>,
  \<^verbatim>\<open>mp3_read_file_s16\<close>, \<^verbatim>\<open>flac_read_file_s16\<close>, \<^verbatim>\<open>wav_read_file_s16\<close>) call the native
  decoders; they are the parameter \<open>codec\<close>, indexed by the adapter.
\<close>

definition get_file_info :: "(adapter \<Rightarrow> string \<Rightarrow> error + 'info) \<Rightarrow> string \<Rightarrow> error + 'info" where
  "get_file_info codec_get_file_info filename =
     (let ext = lower (snd (splitext filename))
      in if ext \<in> set [''.ogg'', ''.vorbis''] then codec_get_file_info Vorbis filename
         else if ext = ''.mp3'' then codec_get_file_info MP3 filename
         else if ext = ''.flac'' then codec_get_file_info FLAC filename
         else if ext = ''.wav'' then codec_get_file_info WAV filename
         else Inl (DecodeError ''unsupported file format''))"

definition read_file :: "(adapter \<Rightarrow> string \<Rightarrow> error + 'sound) \<Rightarrow> string \<Rightarrow> error + 'sound" where
  "read_file codec_read_file filename =
     (let ext = lower (snd (splitext filename))
      in if ext \<in> set [''.ogg'', ''.vorbis''] then codec_read_file Vorbis filename
         else if ext = ''.mp3'' then codec_read_file MP3 filename
         else if ext = ''.flac'' then codec_read_file FLAC filename
         else if ext = ''.wav'' then codec_read_file WAV filename
         else Inl (DecodeError ''unsupported file format''))"

subsection \<open>Decoded sound files\<close>

text \<open>
  \<^verbatim>\<open>DecodedSoundFile\<close>. The constructor computes \<^verbatim>\<open>num_frames = len(samples) // nchannels\<close>
  and \<^verbatim>\<open>duration = num_frames / sample_rate\<close>; both divisions raise ZeroDivisionError on a
  zero divisor. The duration is kept as the exact quotient (Python rounds it to a double);
  the format name comes from the native \<^verbatim>\<open>ma_get_format_name\<close>, a parameter here.
\<close>

record DecodedSoundFile =
  name :: string
  nchannels :: int
  sample_rate :: int
  sample_width :: int
  sample_format :: ma_format
  sample_format_name :: string
  samples :: array
  num_frames :: int
  duration :: rat

definition DecodedSoundFile_init ::
  "(ma_format \<Rightarrow> string) \<Rightarrow> string \<Rightarrow> int \<Rightarrow> int \<Rightarrow> int \<Rightarrow> ma_format \<Rightarrow> array \<Rightarrow> error + DecodedSoundFile" where
  "DecodedSoundFile_init ma_get_format_name nm nch rate width fmt smp =
     (if nch = 0 then Inl ZeroDivisionError
      else if rate = 0 then Inl ZeroDivisionError
      else Inr \<lparr>name = nm, nchannels = nch, sample_rate = rate, sample_width = width,
                sample_format = fmt, sample_format_name = ma_get_format_name fmt,
                samples = smp, num_frames = len_array smp div nch,
                duration = Fract (len_array smp div nch) rate\<rparr>)"

subsection \<open>Generators\<close>

text \<open>
  What resuming a Python generator with \<^verbatim>\<open>send\<close> can do: yield a value, finish
  (StopIteration), or raise.
\<close>

datatype 'y outcome = Yielded 'y | StopIteration | Raised error

subsection \<open>Streaming decode: \<^verbatim>\<open>_samples_generator\<close>\<close>

definition MA_SUCCESS :: int where
  "MA_SUCCESS = 0"

text \<open>
  The generator object made from \<^verbatim>\<open>_samples_generator\<close>, suspended at one of its two
  \<^verbatim>\<open>yield\<close>s or finished. Its local variables are the fields; \<open>decoder\<close> is the state of
  the native decoder and \<open>uninit_calls\<close> counts the calls of \<^verbatim>\<open>lib.ma_decoder_uninit\<close> made
  by the \<^verbatim>\<open>finally\<close> clause.
\<close>

record 'd samples_generator =
  frames_to_read :: int
  gen_nchannels :: int
  gen_sample_width :: int
  samples_proto :: array
  allocated_buffer_frames :: int
  decoder :: 'd
  uninit_calls :: nat
  finished :: bool

text \<open>Leaving the \<^verbatim>\<open>try\<close> block: the \<^verbatim>\<open>finally\<close> clause runs and the generator is over.\<close>

definition finally_uninit :: "'d samples_generator \<Rightarrow> 'd samples_generator" where
  "finally_uninit g = g\<lparr>uninit_calls := Suc (uninit_calls g), finished := True\<rparr>"

text \<open>
  Creating the generator and running it to its first \<^verbatim>\<open>yield\<close> (the \<^verbatim>\<open>next(g)\<close> of
  \<^verbatim>\<open>stream_file\<close>): an unsupported format raises before the \<^verbatim>\<open>try\<close> block is entered.
\<close>

definition samples_generator_start ::
  "int \<Rightarrow> int \<Rightarrow> ma_format \<Rightarrow> 'd \<Rightarrow> error + 'd samples_generator" where
  "samples_generator_start ftr nch ma_output_format dec =
     (case decode_ma_format ma_output_format of
        Inl e \<Rightarrow> Inl e
      | Inr (width, proto) \<Rightarrow>
          Inr \<lparr>frames_to_read = ftr, gen_nchannels = nch, gen_sample_width = width,
               samples_proto = proto, allocated_buffer_frames = max ftr 16384,
               decoder = dec, uninit_calls = 0, finished = False\<rparr>)"

text \<open>
  One \<^verbatim>\<open>send\<close> (\<^verbatim>\<open>next\<close> is \<^verbatim>\<open>send(None)\<close>). The native
  \<^verbatim>\<open>lib.ma_decoder_read_pcm_frames\<close> is the parameter \<open>read_pcm_frames\<close>: from the decoder
  state and the wanted frame count it gives the number of frames read, the contents of
  the decode buffer afterwards, and the new decoder state. cffi refuses to convert a
  number outside \<^verbatim>\<open>ma_uint64\<close> with OverflowError. The numbers formatted into the
  message of the capacity error are left out.
\<close>

definition samples_generator_send ::
  "('d \<Rightarrow> int \<Rightarrow> (int \<times> byte list) \<times> 'd) \<Rightarrow> 'd samples_generator \<Rightarrow> int option
     \<Rightarrow> array outcome \<times> 'd samples_generator" where
  "samples_generator_send read_pcm_frames g sent =
     (if finished g then (StopIteration, g)
      else
        let want_frames = (case sent of None \<Rightarrow> frames_to_read g
                           | Some v \<Rightarrow> if v \<noteq> 0 then v else frames_to_read g)
        in if want_frames > allocated_buffer_frames g then
             (Raised (MiniaudioError ''wanted to read more frames than storage was allocated for''),
              finally_uninit g)
           else if want_frames < 0 \<or> want_frames \<ge> 2 ^ 64 then
             (Raised OverflowError, finally_uninit g)
           else
             (case read_pcm_frames (decoder g) want_frames of
                ((n_read, decodebuffer), dec') \<Rightarrow>
                  if n_read \<le> 0 then (StopIteration, finally_uninit (g\<lparr>decoder := dec'\<rparr>))
                  else
                    (case frombytes (new_array (typecode (samples_proto g)))
                            (take (nat (n_read * gen_sample_width g * gen_nchannels g)) decodebuffer) of
                       Inl e \<Rightarrow> (Raised e, finally_uninit (g\<lparr>decoder := dec'\<rparr>))
                     | Inr smp \<Rightarrow> (Yielded smp, g\<lparr>decoder := dec'\<rparr>))))"

text \<open>
  \<^verbatim>\<open>stream_file\<close> and \<^verbatim>\<open>stream_memory\<close>. Inputs of the model: whether the file exists
  (\<^verbatim>\<open>_get_filename_bytes\<close>), the result code of the native \<^verbatim>\<open>ma_decoder_init_*\<close> and the
  decoder it initialised.
\<close>

definition stream_file ::
  "bool \<Rightarrow> int \<Rightarrow> 'd \<Rightarrow> ma_format \<Rightarrow> int \<Rightarrow> int \<Rightarrow> error + 'd samples_generator" where
  "stream_file isfile result dec ma_output_format nch ftr =
     (if \<not> isfile then Inl FileNotFoundError
      else if result \<noteq> MA_SUCCESS then Inl (DecodeError ''failed to decode file'')
      else samples_generator_start ftr nch ma_output_format dec)"

definition stream_memory ::
  "int \<Rightarrow> 'd \<Rightarrow> ma_format \<Rightarrow> int \<Rightarrow> int \<Rightarrow> error + 'd samples_generator" where
  "stream_memory result dec ma_output_format nch ftr =
     (if result \<noteq> MA_SUCCESS then Inl (DecodeError ''failed to decode memory'')
      else samples_generator_start ftr nch ma_output_format dec)"

text \<open>A consumer pulling several times: the stream after the requests \<open>reqs\<close>, in order.\<close>

fun pulls ::
  "('d \<Rightarrow> int \<Rightarrow> (int \<times> byte list) \<times> 'd) \<Rightarrow> 'd samples_generator \<Rightarrow> int option list
     \<Rightarrow> 'd samples_generator" where
  "pulls read_pcm_frames g [] = g"
| "pulls read_pcm_frames g (r # rs) =
     pulls read_pcm_frames (snd (samples_generator_send read_pcm_frames g r)) rs"

subsection \<open>Callback routines and their payloads\<close>

text \<open>
  What a callback generator can hand back to a device: \<^verbatim>\<open>None\<close>, \<^verbatim>\<open>bytes\<close>, an
  \<^verbatim>\<open>array.array\<close>, or a \<^verbatim>\<open>memoryview\<close> (its item size and the bytes it views).
\<close>

datatype payload =
    PyNone
  | Bytes "byte list"
  | Array array
  | Memoryview nat "byte list"

text \<open>\<^verbatim>\<open>_bytes_from_generator_samples\<close>: arrays and wide memoryviews are cast to a view of bytes.\<close>

definition bytes_from_generator_samples :: "payload \<Rightarrow> payload" where
  "bytes_from_generator_samples smp =
     (case smp of
        Array a \<Rightarrow> Memoryview 1 (raw a)
      | Memoryview sz bs \<Rightarrow> if sz \<noteq> 1 then Memoryview 1 bs else smp
      | _ \<Rightarrow> smp)"

text \<open>
  \<^verbatim>\<open>len(x)\<close>, the truth value of \<^verbatim>\<open>x\<close> and the bytes behind \<^verbatim>\<open>x\<close>. (\<^verbatim>\<open>len(None)\<close> is a
  TypeError in Python; the module only takes the length of a value it found true.)
\<close>

definition py_len :: "payload \<Rightarrow> int" where
  "py_len x =
     (case x of
        PyNone \<Rightarrow> 0
      | Bytes bs \<Rightarrow> int (length bs)
      | Array a \<Rightarrow> len_array a
      | Memoryview sz bs \<Rightarrow> int (length bs div sz))"

definition truthy :: "payload \<Rightarrow> bool" where
  "truthy x = (py_len x \<noteq> 0)"

definition buffer_of :: "payload \<Rightarrow> byte list" where
  "buffer_of x =
     (case x of
        PyNone \<Rightarrow> []
      | Bytes bs \<Rightarrow> bs
      | Array a \<Rightarrow> raw a
      | Memoryview sz bs \<Rightarrow> bs)"

text \<open>
  \<^verbatim>\<open>ffi.memmove(dest, src, n)\<close>: the first \<open>n\<close> bytes at \<open>dest\<close> are overwritten with the
  first \<open>n\<close> bytes of \<open>src\<close>. The destination is the native memory starting at the pointer,
  as far as the model looks at it: the hardware buffer, then whatever follows it.
\<close>

definition memmove :: "byte list \<Rightarrow> byte list \<Rightarrow> int \<Rightarrow> byte list" where
  "memmove dest src n = take (nat n) src @ drop (nat n) dest"

text \<open>The value a device sends into its routine: a frame count (playback) or captured bytes.\<close>

datatype gen_input = Framecount int | Data "byte list"

text \<open>
  A callback generator is any object that answers \<^verbatim>\<open>send\<close> with an outcome and
  continues as another such object; it may go on forever.
\<close>

codatatype gen = Gen (send: "gen_input \<Rightarrow> payload outcome \<times> gen")

text \<open>The argument of \<^verbatim>\<open>start\<close>: \<^verbatim>\<open>inspect.isgenerator\<close> tells generators from everything else.\<close>

datatype pyobj = Generator gen | NotAGenerator

subsection \<open>Devices, the callback registry and the native side\<close>

datatype device_class = CaptureDevice | PlaybackDevice | DuplexStream

text \<open>
  A device object. \<open>ma_device\<close> is the attribute \<^verbatim>\<open>_device\<close> (the native handle, or
  \<^verbatim>\<open>None\<close> after \<^verbatim>\<open>close\<close>); \<open>nchannels\<close> belongs to capture and playback devices,
  \<open>capture_channels\<close> and \<open>playback_channels\<close> to duplex streams.
\<close>

record device =
  cls :: device_class
  callback_generator :: "gen option"
  ma_device :: "nat option"
  dev_sample_width :: int
  dev_nchannels :: int
  capture_channels :: int
  playback_channels :: int

datatype native_call = Ma_device_start nat | Ma_device_stop nat | Ma_device_uninit nat

text \<open>
  The state the device code works on: the device objects by identity (\<^verbatim>\<open>id(self)\<close>), the
  module-level dict \<^verbatim>\<open>_callback_data\<close> from identities to device objects (references,
  so identities again), and the calls made into the native library so far.
\<close>

record world =
  objects :: "int \<Rightarrow> device"
  callback_data :: "int \<rightharpoonup> int"
  native_calls :: "native_call list"

definition set_callback_generator :: "int \<Rightarrow> gen option \<Rightarrow> world \<Rightarrow> world" where
  "set_callback_generator self g w =
     w\<lparr>objects := (objects w)(self := (objects w self)\<lparr>callback_generator := g\<rparr>)\<rparr>"

text \<open>
  Methods return the new state and the exception raised, if any. A native call on a
  device whose \<^verbatim>\<open>_device\<close> is \<^verbatim>\<open>None\<close> is refused by cffi with a TypeError; otherwise its
  result code is an input of the model.
\<close>

definition start :: "int \<Rightarrow> pyobj \<Rightarrow> int \<Rightarrow> world \<Rightarrow> world \<times> error option" where
  "start self arg result w =
     (if callback_generator (objects w self) \<noteq> None then
        (w, Some (MiniaudioError ''can't start an already started device''))
      else
        (case arg of
           NotAGenerator \<Rightarrow> (w, Some (TypeError ''callback must be a generator''))
         | Generator g \<Rightarrow>
             (let w1 = set_callback_generator self (Some g) w
              in case ma_device (objects w1 self) of
                   None \<Rightarrow> (w1, Some (TypeError ''must be a cdata pointer, not NoneType''))
                 | Some h \<Rightarrow>
                     (let w2 = w1\<lparr>native_calls := native_calls w1 @ [Ma_device_start h]\<rparr>
                      in if result \<noteq> MA_SUCCESS
                         then (w2, Some (MiniaudioError ''failed to start audio device''))
                         else (w2, None)))))"

definition stop :: "int \<Rightarrow> int \<Rightarrow> world \<Rightarrow> world \<times> error option" where
  "stop self result w =
     (let w1 = set_callback_generator self None w
      in case ma_device (objects w1 self) of
           None \<Rightarrow> (w1, Some (TypeError ''must be a cdata pointer, not NoneType''))
         | Some h \<Rightarrow>
             (let w2 = w1\<lparr>native_calls := native_calls w1 @ [Ma_device_stop h]\<rparr>
              in if result \<noteq> MA_SUCCESS
                 then (w2, Some (MiniaudioError ''failed to stop audio device''))
                 else (w2, None)))"

definition close :: "int \<Rightarrow> world \<Rightarrow> world \<times> error option" where
  "close self w =
     (let w1 = set_callback_generator self None w;
          w2 = (case ma_device (objects w1 self) of
                  None \<Rightarrow> w1
                | Some h \<Rightarrow>
                    w1\<lparr>objects := (objects w1)(self := (objects w1 self)\<lparr>ma_device := None\<rparr>),
                       native_calls := native_calls w1 @ [Ma_device_uninit h]\<rparr>);
          w3 = (if callback_data w2 self \<noteq> None
                then w2\<lparr>callback_data := (callback_data w2)(self := None)\<rparr>
                else w2)
      in (w3, None))"

subsection \<open>The data callbacks\<close>

text \<open>
  Each callback gets the native output and input memory and the frame count, and returns
  the state, the output memory and the exception raised, if any.
\<close>

definition capture_data_callback ::
  "int \<Rightarrow> byte list \<Rightarrow> byte list \<Rightarrow> int \<Rightarrow> world \<Rightarrow> world \<times> byte list \<times> error option" where
  "capture_data_callback self output input framecount w =
     (case callback_generator (objects w self) of
        None \<Rightarrow> (w, output, None)
      | Some g \<Rightarrow>
          (let buffer_size = dev_sample_width (objects w self) * dev_nchannels (objects w self) * framecount;
               data = memmove (replicate (nat buffer_size) 0) input buffer_size
           in case send g (Data data) of
                (StopIteration, _) \<Rightarrow> (set_callback_generator self None w, output, None)
              | (Raised e, _) \<Rightarrow> (set_callback_generator self None w, output, Some e)
              | (Yielded _, g') \<Rightarrow> (set_callback_generator self (Some g') w, output, None)))"

definition playback_data_callback ::
  "int \<Rightarrow> byte list \<Rightarrow> byte list \<Rightarrow> int \<Rightarrow> world \<Rightarrow> world \<times> byte list \<times> error option" where
  "playback_data_callback self output input framecount w =
     (case callback_generator (objects w self) of
        None \<Rightarrow> (w, output, None)
      | Some g \<Rightarrow>
          (case send g (Framecount framecount) of
             (StopIteration, _) \<Rightarrow> (set_callback_generator self None w, output, None)
           | (Raised e, _) \<Rightarrow> (set_callback_generator self None w, output, Some e)
           | (Yielded smp, g') \<Rightarrow>
               (let w1 = set_callback_generator self (Some g') w;
                    samples_bytes = bytes_from_generator_samples smp
                in if truthy samples_bytes then
                     (if py_len samples_bytes >
                           framecount * dev_sample_width (objects w self) * dev_nchannels (objects w self)
                      then (set_callback_generator self None w1, output,
                            Some (MiniaudioError ''number of frames from callback exceeds maximum''))
                      else (w1, memmove output (buffer_of samples_bytes) (py_len samples_bytes), None))
                   else (w1, output, None))))"

definition duplex_data_callback ::
  "int \<Rightarrow> byte list \<Rightarrow> byte list \<Rightarrow> int \<Rightarrow> world \<Rightarrow> world \<times> byte list \<times> error option" where
  "duplex_data_callback self output input framecount w =
     (let buffer_size = dev_sample_width (objects w self) * capture_channels (objects w self) * framecount;
          in_data = memmove (replicate (nat buffer_size) 0) input buffer_size
      in case callback_generator (objects w self) of
           None \<Rightarrow> (w, output, None)
         | Some g \<Rightarrow>
             (case send g (Data in_data) of
                (StopIteration, _) \<Rightarrow> (set_callback_generator self None w, output, None)
              | (Raised e, _) \<Rightarrow> (set_callback_generator self None w, output, Some e)
              | (Yielded out_data, g') \<Rightarrow>
                  (let w1 = set_callback_generator self (Some g') w
                   in if truthy out_data then
                        (let samples_bytes = bytes_from_generator_samples out_data
                         in (w1, memmove output (buffer_of samples_bytes) (py_len samples_bytes), None))
                      else (w1, output, None))))"

text \<open>
  \<^verbatim>\<open>internal_data_callback\<close>, the function the native library calls. \<open>pUserData\<close> is
  the device's user-data pointer: null, or pointing at the packed identity of the Python
  device object. The method called is that of the object's class.
\<close>

definition data_callback ::
  "int \<Rightarrow> byte list \<Rightarrow> byte list \<Rightarrow> int \<Rightarrow> world \<Rightarrow> world \<times> byte list \<times> error option" where
  "data_callback self output input framecount w =
     (case cls (objects w self) of
        CaptureDevice \<Rightarrow> capture_data_callback self output input framecount w
      | PlaybackDevice \<Rightarrow> playback_data_callback self output input framecount w
      | DuplexStream \<Rightarrow> duplex_data_callback self output input framecount w)"

definition internal_data_callback ::
  "int option \<Rightarrow> byte list \<Rightarrow> byte list \<Rightarrow> int \<Rightarrow> world \<Rightarrow> world \<times> byte list \<times> error option" where
  "internal_data_callback pUserData output input framecount w =
     (if framecount = 0 \<or> pUserData = None then (w, output, None)
      else
        (case pUserData of
           None \<Rightarrow> (w, output, None)
         | Some userdata_id \<Rightarrow>
             (case callback_data w userdata_id of
                None \<Rightarrow> (w, output, Some KeyError)
              | Some callback_device \<Rightarrow> data_callback callback_device output input framecount w)))"

text \<open>Two routines to run the devices on: one that yields the same payload for ever, one that is over at once.\<close>

primcorec repeat_gen :: "payload \<Rightarrow> gen" where
  "repeat_gen p = Gen (\<lambda>_. (Yielded p, repeat_gen p))"

primcorec finished_gen :: gen where
  "finished_gen = Gen (\<lambda>_. (StopIteration, finished_gen))"

subsection \<open>Example inputs\<close>

text \<open>
  A device of a given class with native handle 7, 16-bit samples and two channels in each
  direction, bound to a routine that keeps yielding the payload \<open>p\<close>; and a state in
  which that device has identity 1, is registered and has been started.
\<close>

definition example_device :: "device_class \<Rightarrow> payload \<Rightarrow> device" where
  "example_device c p =
     \<lparr>cls = c, callback_generator = Some (repeat_gen p), ma_device = Some 7,
      dev_sample_width = 2, dev_nchannels = 2, capture_channels = 2, playback_channels = 2\<rparr>"

definition example_world :: "device_class \<Rightarrow> payload \<Rightarrow> world" where
  "example_world c p =
     \<lparr>objects = (\<lambda>_. example_device c p), callback_data = [1 \<mapsto> 1],
      native_calls = [Ma_device_start 7]\<rparr>"

text \<open>The names the native \<^verbatim>\<open>ma_get_format_name\<close> gives to the formats.\<close>

definition format_name :: "ma_format \<Rightarrow> string" where
  "format_name fmt =
     (case fmt of
        ma_format_unknown \<Rightarrow> ''Unknown''
      | ma_format_u8 \<Rightarrow> ''8-bit Unsigned Integer''
      | ma_format_s16 \<Rightarrow> ''16-bit Signed Integer''
      | ma_format_s24 \<Rightarrow> ''24-bit Signed Integer (Tightly Packed)''
      | ma_format_s32 \<Rightarrow> ''32-bit Signed Integer''
      | ma_format_f32 \<Rightarrow> ''32-bit IEEE Floating Point'')"

text \<open>An array of five 16-bit samples.\<close>

definition five_samples :: array where
  "five_samples = \<lparr>typecode = CHR ''h'', itemsize = 2, raw = replicate 10 0\<rparr>"

text \<open>
  A native decoder over a source of silence in 16-bit stereo: its state is the number of
  frames left, and a read delivers as many of the wanted frames as are left.
\<close>

definition silence_read :: "nat \<Rightarrow> int \<Rightarrow> (int \<times> byte list) \<times> nat" where
  "silence_read remaining want =
     ((min (int remaining) want, replicate (nat (min (int remaining) want) * 4) 0),
      remaining - nat want)"

text \<open>The stream \<^verbatim>\<open>stream_file(name, ma_format_s16, 2, 44100, 1024)\<close> over five frames of silence.\<close>

definition example_stream :: "nat samples_generator" where
  "example_stream =
     \<lparr>frames_to_read = 1024, gen_nchannels = 2, gen_sample_width = 2,
      samples_proto = new_array CHR ''h'', allocated_buffer_frames = 16384,
      decoder = 5, uninit_calls = 0, finished = False\<rparr>"

section \<open>Properties\<close>

subsection \<open>Sample format model\<close>

text \<open>
  C7, as the code has it. \<^verbatim>\<open>_ma_format_from_width\<close> is a function of its two arguments
  alone. A float request gives the 32-bit float format whatever the width is: the width
  is not looked at and the request never fails. A request that is not float gives the
  unsigned 8-bit format for width 1, the signed 16-bit format for width 2, the signed
  32-bit format for width 4, and fails with the unsupported-width error (a ValueError)
  for every other width.
\<close>

theorem ma_format_from_width_cases:
  "ma_format_from_width w True = Inr ma_format_f32 \<and>
   ma_format_from_width 1 False = Inr ma_format_u8 \<and>
   ma_format_from_width 2 False = Inr ma_format_s16 \<and>
   ma_format_from_width 4 False = Inr ma_format_s32 \<and>
   (w \<noteq> 1 \<and> w \<noteq> 2 \<and> w \<noteq> 4 \<longrightarrow>
      ma_format_from_width w False = Inl (ValueError ''unsupported sample_width''))"
  by (simp add: ma_format_from_width_def)

theorem ma_format_from_width_cases_witness:
  "(3::int) \<noteq> 1 \<and> (3::int) \<noteq> 2 \<and> (3::int) \<noteq> 4 \<and>
   ma_format_from_width 3 False = Inl (ValueError ''unsupported sample_width'') \<and>
   ma_format_from_width 3 True = Inr ma_format_f32"
  using ma_format_from_width_cases [of 3] by simp

text \<open>
  C7 as stated fails: a float request of width 2 does not fail, it returns the 32-bit
  float format.
\<close>

theorem float_width_counterexample:
  "ma_format_from_width 2 True = Inr ma_format_f32"
  by (simp add: ma_format_from_width_def)

subsection \<open>Format dispatcher\<close>

lemma rfind_from_append:
  "rfind_from c (xs @ ys) i found = rfind_from c ys (i + int (length xs)) (rfind_from c xs i found)"
  by (induction xs arbitrary: i found) (simp_all add: add.assoc)

lemma rfind_from_absent: "c \<notin> set xs \<Longrightarrow> rfind_from c xs i found = found"
  by (induction xs arbitrary: i found) auto

lemma rfind_from_upper:
  "found < i \<Longrightarrow> rfind_from c xs i found < i + int (length xs)"
proof (induction xs arbitrary: i found)
  case Nil
  then show ?case by simp
next
  case (Cons x xs)
  have "rfind_from c xs (i + 1) (if x = c then i else found) < i + 1 + int (length xs)"
    using Cons.prems by (intro Cons.IH) simp
  then show ?case by simp
qed

lemma rfind_from_lower:
  "- 1 \<le> found \<Longrightarrow> 0 \<le> i \<Longrightarrow> - 1 \<le> rfind_from c xs i found"
proof (induction xs arbitrary: i found)
  case Nil
  then show ?case by simp
next
  case (Cons x xs)
  have "- 1 \<le> rfind_from c xs (i + 1) (if x = c then i else found)"
    using Cons.prems by (intro Cons.IH) simp_all
  then show ?case by simp
qed

lemma take_1_drop: "n < length p \<Longrightarrow> take 1 (drop n p) = [p ! n]"
  by (metis Cons_nth_drop_Suc One_nat_def take0 take_Suc_Cons)

lemma skip_leading_dots_found:
  "0 \<le> i \<Longrightarrow> i \<le> int k \<Longrightarrow> int k < dot \<Longrightarrow> k < length p \<Longrightarrow> p ! k \<noteq> CHR ''.''
     \<Longrightarrow> skip_leading_dots p i dot"
proof (induction p i dot rule: skip_leading_dots.induct)
  case (1 p i dot)
  show ?case
  proof (cases "take 1 (drop (nat i) p) \<noteq> ''.''")
    case True
    then show ?thesis
      using "1.prems" by (subst skip_leading_dots.simps) simp
  next
    case False
    have "nat i < length p" using "1.prems" by linarith
    then have "take 1 (drop (nat i) p) = [p ! nat i]"
      by (rule take_1_drop)
    with False have "p ! nat i = CHR ''.''" by simp
    with "1.prems" have "nat i \<noteq> k" by auto
    with "1.prems" have "i + 1 \<le> int k" by linarith
    with "1.prems" False have "skip_leading_dots p (i + 1) dot"
      by (intro "1.IH") simp_all
    with False "1.prems" show ?thesis
      by (subst skip_leading_dots.simps) simp
  qed
qed

text \<open>
  The extension that \<^verbatim>\<open>os.path.splitext\<close> finds in a name \<open>d @ b @ ''.'' @ e\<close>: when
  \<open>e\<close> has neither dot nor separator and the base name \<open>b\<close> has no separator and
  some character other than a dot, the extension is \<open>''.'' @ e\<close>, whatever the
  directory part \<open>d\<close> is; the dispatcher then sees \<open>''.'' @ lower e\<close>.
\<close>

lemma splitext_extension:
  assumes "CHR ''.'' \<notin> set e" and "CHR ''/'' \<notin> set e" and "CHR ''/'' \<notin> set b"
    and "c \<in> set b" and "c \<noteq> CHR ''.''"
  shows "splitext (d @ b @ CHR ''.'' # e) = (d @ b, CHR ''.'' # e)"
proof -
  let ?p = "d @ b @ CHR ''.'' # e"
  have dot: "rfind ?p CHR ''.'' = int (length d + length b)"
    using assms(1)
    by (simp add: rfind_def rfind_from_append rfind_from_absent)
  have sep: "rfind ?p CHR ''/'' = rfind_from CHR ''/'' d 0 (- 1)"
    using assms(2,3)
    by (simp add: rfind_def rfind_from_append rfind_from_absent)
  have hi: "rfind_from CHR ''/'' d 0 (- 1) < int (length d)"
    using rfind_from_upper [of "- 1" 0 "CHR ''/''" d] by simp
  have lo: "- 1 \<le> rfind_from CHR ''/'' d 0 (- 1)"
    by (rule rfind_from_lower) simp_all
  obtain j where j: "j < length b" "b ! j = c"
    using assms(4) by (auto simp add: in_set_conv_nth)
  have nth: "?p ! (length d + j) = c"
    using j by (simp add: nth_append)
  have "skip_leading_dots ?p (rfind_from CHR ''/'' d 0 (- 1) + 1) (int (length d + length b))"
    using lo hi j nth assms(5)
    by (intro skip_leading_dots_found [where k = "length d + j"]) simp_all
  then show ?thesis
    using hi by (simp add: splitext_def dot sep Let_def)
qed

lemma lowered_extension:
  assumes "CHR ''.'' \<notin> set e" and "CHR ''/'' \<notin> set e" and "CHR ''/'' \<notin> set b"
    and "c \<in> set b" and "c \<noteq> CHR ''.''"
  shows "lower (snd (splitext (d @ b @ CHR ''.'' # e))) = CHR ''.'' # lower e"
proof -
  have "lower_char CHR ''.'' = CHR ''.''"
    by (simp add: lower_char_def)
  then show ?thesis
    using splitext_extension [OF assms] by (simp add: lower_def)
qed

text \<open>
  C5. For every file name, \<^verbatim>\<open>get_file_info\<close> and \<^verbatim>\<open>read_file\<close> choose the decoder
  family by the lowered extension of the name and by nothing else: \<open>.ogg\<close> and
  \<open>.vorbis\<close> go to Vorbis, \<open>.mp3\<close> to MP3, \<open>.flac\<close> to FLAC, \<open>.wav\<close> to WAV, and every
  other extension fails with the unsupported-file-format error (the module raises it as
  a DecodeError with that message).
\<close>

theorem dispatch_by_lowered_extension:
  "(let ext = lower (snd (splitext filename)) in
     (ext = ''.ogg'' \<or> ext = ''.vorbis'' \<longrightarrow>
        get_file_info codec_info filename = codec_info Vorbis filename \<and>
        read_file codec_read filename = codec_read Vorbis filename) \<and>
     (ext = ''.mp3'' \<longrightarrow>
        get_file_info codec_info filename = codec_info MP3 filename \<and>
        read_file codec_read filename = codec_read MP3 filename) \<and>
     (ext = ''.flac'' \<longrightarrow>
        get_file_info codec_info filename = codec_info FLAC filename \<and>
        read_file codec_read filename = codec_read FLAC filename) \<and>
     (ext = ''.wav'' \<longrightarrow>
        get_file_info codec_info filename = codec_info WAV filename \<and>
        read_file codec_read filename = codec_read WAV filename) \<and>
     (ext \<notin> {''.ogg'', ''.vorbis'', ''.mp3'', ''.flac'', ''.wav''} \<longrightarrow>
        get_file_info codec_info filename = Inl (DecodeError ''unsupported file format'') \<and>
        read_file codec_read filename = Inl (DecodeError ''unsupported file format'')))"
  by (simp add: get_file_info_def read_file_def Let_def)

lemma lowered_extension_examples:
  "lower (snd (splitext ''music/Song.MP3'')) = ''.mp3''"
  "lower (snd (splitext ''a.b/take.Vorbis'')) = ''.vorbis''"
  "lower (snd (splitext ''notes.txt'')) = ''.txt''"
  "lower (snd (splitext ''.wav'')) = []"
  by code_simp+

theorem dispatch_by_lowered_extension_witness:
  "get_file_info (\<lambda>a f. Inr (a, f)) ''music/Song.MP3'' = Inr (MP3, ''music/Song.MP3'') \<and>
   read_file (\<lambda>a f. Inr (a, f)) ''a.b/take.Vorbis'' = Inr (Vorbis, ''a.b/take.Vorbis'') \<and>
   get_file_info (\<lambda>a f. Inr (a, f)) ''notes.txt'' = Inl (DecodeError ''unsupported file format'') \<and>
   read_file (\<lambda>a f. Inr (a, f)) ''.wav'' = Inl (DecodeError ''unsupported file format'')"
  using
    dispatch_by_lowered_extension [of "''music/Song.MP3''" "\<lambda>a f. Inr (a, f)" "\<lambda>a f. Inr (a, f)"]
    dispatch_by_lowered_extension [of "''a.b/take.Vorbis''" "\<lambda>a f. Inr (a, f)" "\<lambda>a f. Inr (a, f)"]
    dispatch_by_lowered_extension [of "''notes.txt''" "\<lambda>a f. Inr (a, f)" "\<lambda>a f. Inr (a, f)"]
    dispatch_by_lowered_extension [of "''.wav''" "\<lambda>a f. Inr (a, f)" "\<lambda>a f. Inr (a, f)"]
  by (simp add: lowered_extension_examples Let_def)

subsection \<open>Decoded sound files\<close>

text \<open>
  C8, as the code has it. For every \<^verbatim>\<open>DecodedSoundFile\<close> built with a channel count and
  a sample rate other than zero, \<open>num_frames\<close> is the floor quotient of the sample count
  by the channel count. It is the exact quotient when the sample count is a multiple of
  the channel count; when it is not, the object is built all the same and the remainder
  is left out of \<open>num_frames\<close>.
\<close>

theorem num_frames_floor_division:
  "nch \<noteq> 0 \<and> rate \<noteq> 0 \<longrightarrow>
     (\<exists>d. DecodedSoundFile_init fmt_name nm nch rate width fmt smp = Inr d \<and>
          num_frames d = len_array smp div nch \<and>
          len_array smp = num_frames d * nch + len_array smp mod nch \<and>
          (len_array smp mod nch = 0 \<longrightarrow> num_frames d * nch = len_array smp) \<and>
          (len_array smp mod nch \<noteq> 0 \<longrightarrow> num_frames d * nch \<noteq> len_array smp))"
proof (intro impI)
  assume nz: "nch \<noteq> 0 \<and> rate \<noteq> 0"
  let ?n = "len_array smp"
  have exact: "?n mod nch = 0 \<Longrightarrow> ?n div nch * nch = ?n"
    by (simp add: mod_eq_0_iff_dvd)
  have inexact: "?n mod nch \<noteq> 0 \<Longrightarrow> ?n div nch * nch \<noteq> ?n"
    by (metis mod_mult_self2_is_0)
  show "\<exists>d. DecodedSoundFile_init fmt_name nm nch rate width fmt smp = Inr d \<and>
          num_frames d = ?n div nch \<and>
          ?n = num_frames d * nch + ?n mod nch \<and>
          (?n mod nch = 0 \<longrightarrow> num_frames d * nch = ?n) \<and>
          (?n mod nch \<noteq> 0 \<longrightarrow> num_frames d * nch \<noteq> ?n)"
    using nz exact inexact by (simp add: DecodedSoundFile_init_def)
qed

theorem num_frames_floor_division_witness:
  "(2::int) \<noteq> 0 \<and> (44100::int) \<noteq> 0 \<and> len_array five_samples mod 2 \<noteq> 0 \<and>
   (\<exists>d. DecodedSoundFile_init format_name ''a.wav'' 2 44100 2 ma_format_s16 five_samples = Inr d \<and>
        num_frames d = 2 \<and> num_frames d * 2 \<noteq> len_array five_samples)"
  using num_frames_floor_division [of 2 44100 format_name "''a.wav''" 2 ma_format_s16 five_samples]
  by (simp add: five_samples_def len_array_def)

text \<open>
  C8 as stated fails: five samples on two channels leave a partial frame, and the
  constructor does not fail; it returns an object of two frames.
\<close>

theorem partial_frame_counterexample:
  "len_array five_samples = 5 \<and>
   \<not> isl (DecodedSoundFile_init format_name ''a.wav'' 2 44100 2 ma_format_s16 five_samples) \<and>
   num_frames (projr (DecodedSoundFile_init format_name ''a.wav'' 2 44100 2 ma_format_s16 five_samples)) = 2"
  by (simp add: DecodedSoundFile_init_def five_samples_def len_array_def)

subsection \<open>Streaming decode engine\<close>

lemma frombytes_error:
  "frombytes a bs = Inl e \<Longrightarrow> e = ValueError ''bytes length not a multiple of item size''"
  by (simp add: frombytes_def split: if_splits)

lemma send_keeps_capacity:
  "allocated_buffer_frames (snd (samples_generator_send rd g r)) = allocated_buffer_frames g \<and>
   frames_to_read (snd (samples_generator_send rd g r)) = frames_to_read g"
  by (simp add: samples_generator_send_def finally_uninit_def Let_def
      split: prod.splits sum.splits option.splits)

lemma pulls_keep_capacity:
  "allocated_buffer_frames (pulls rd g rs) = allocated_buffer_frames g \<and>
   frames_to_read (pulls rd g rs) = frames_to_read g"
  by (induction rs arbitrary: g) (simp_all add: send_keeps_capacity)

lemma stream_capacity:
  "stream_file isfile result dec fmt nch ftr = Inr g \<or> stream_memory result dec fmt nch ftr = Inr g
   \<Longrightarrow> allocated_buffer_frames g = max ftr 16384 \<and> frames_to_read g = ftr \<and> \<not> finished g"
  by (auto simp add: stream_file_def stream_memory_def samples_generator_start_def
      split: if_splits sum.splits prod.splits)

lemma example_stream_created:
  "stream_file True MA_SUCCESS (5::nat) ma_format_s16 2 1024 = Inr example_stream"
  by (simp add: stream_file_def samples_generator_start_def decode_ma_format_def
      create_int_array_def new_array_def typecode_itemsize_def MA_SUCCESS_def example_stream_def)

lemma example_stream_pulled:
  "pulls silence_read example_stream [Some 3] = example_stream\<lparr>decoder := 2\<rparr>"
  by (simp add: samples_generator_send_def silence_read_def example_stream_def frombytes_def
      new_array_def typecode_itemsize_def)

text \<open>
  C4. Take a stream made by \<^verbatim>\<open>stream_file\<close> or \<^verbatim>\<open>stream_memory\<close>, after any pulls, that
  has not ended. A pull that sends a frame count above the capacity allocated at creation
  fails with the capacity error: no chunk is yielded, and the native decoder is not read
  (its state after the pull is its state before).
\<close>

theorem capacity_exceeded_not_advanced:
  assumes "stream_file isfile result dec fmt nch ftr = Inr g0 \<or>
           stream_memory result dec fmt nch ftr = Inr g0"
    and "g = pulls rd g0 reqs"
    and "\<not> finished g"
    and "v > allocated_buffer_frames g"
  shows "fst (samples_generator_send rd g (Some v)) =
           Raised (MiniaudioError ''wanted to read more frames than storage was allocated for'') \<and>
         decoder (snd (samples_generator_send rd g (Some v))) = decoder g \<and>
         allocated_buffer_frames (snd (samples_generator_send rd g (Some v))) = allocated_buffer_frames g"
proof -
  have cap: "allocated_buffer_frames g = max ftr 16384"
    using assms(1,2) stream_capacity [of isfile result dec fmt nch ftr g0]
      pulls_keep_capacity [of rd g0 reqs]
    by simp
  have "v \<noteq> 0" using assms(4) cap by simp
  then show ?thesis
    using assms(3,4) cap by (simp add: samples_generator_send_def finally_uninit_def)
qed

theorem capacity_exceeded_not_advanced_witness:
  "\<not> finished (pulls silence_read example_stream [Some 3]) \<and>
   20000 > allocated_buffer_frames (pulls silence_read example_stream [Some 3]) \<and>
   fst (samples_generator_send silence_read (pulls silence_read example_stream [Some 3]) (Some 20000)) =
     Raised (MiniaudioError ''wanted to read more frames than storage was allocated for'') \<and>
   decoder (snd (samples_generator_send silence_read (pulls silence_read example_stream [Some 3])
     (Some 20000))) = 2"
proof -
  have live: "\<not> finished (pulls silence_read example_stream [Some 3])"
    unfolding example_stream_pulled by (simp add: example_stream_def)
  have big: "20000 > allocated_buffer_frames (pulls silence_read example_stream [Some 3])"
    unfolding example_stream_pulled by (simp add: example_stream_def)
  have dec: "decoder (pulls silence_read example_stream [Some 3]) = 2"
    unfolding example_stream_pulled by simp
  show ?thesis
    using capacity_exceeded_not_advanced [OF disjI1 [OF example_stream_created] refl live big]
      live big dec
    by simp
qed

text \<open>
  C10. For a stream made by \<^verbatim>\<open>stream_file\<close> or \<^verbatim>\<open>stream_memory\<close> with default chunk
  size \<open>ftr\<close>, the allocated capacity is \<open>max ftr 16384\<close> frames, at creation and after
  any pulls; a pull that sends nothing, or a count of at most \<open>max ftr 16384\<close>, never
  fails with the capacity error, also when the count is above \<open>ftr\<close>.
\<close>

theorem capacity_is_max_default_16384:
  assumes "stream_file isfile result dec fmt nch ftr = Inr g0 \<or>
           stream_memory result dec fmt nch ftr = Inr g0"
    and "g = pulls rd g0 reqs"
    and "case req of None \<Rightarrow> True | Some v \<Rightarrow> v \<le> max ftr 16384"
  shows "allocated_buffer_frames g = max ftr 16384 \<and>
    fst (samples_generator_send rd g req) \<noteq>
       Raised (MiniaudioError ''wanted to read more frames than storage was allocated for'')"
proof -
  have cap: "allocated_buffer_frames g = max ftr 16384" and ftr: "frames_to_read g = ftr"
    using assms(1,2) stream_capacity [of isfile result dec fmt nch ftr g0]
      pulls_keep_capacity [of rd g0 reqs]
    by simp_all
  define want where
    "want = (case req of None \<Rightarrow> frames_to_read g
             | Some v \<Rightarrow> if v \<noteq> 0 then v else frames_to_read g)"
  have le: "\<not> want > allocated_buffer_frames g"
    using assms(3) cap ftr by (auto simp add: want_def max_def split: option.splits)
  have "fst (samples_generator_send rd g req) \<noteq>
       Raised (MiniaudioError ''wanted to read more frames than storage was allocated for'')"
  proof (cases "finished g")
    case True
    then show ?thesis by (simp add: samples_generator_send_def)
  next
    case False
    show ?thesis
    proof (cases "want < 0 \<or> want \<ge> 2 ^ 64")
      case True
      then show ?thesis
        using False le by (simp add: samples_generator_send_def want_def [symmetric])
    next
      case inrange: False
      obtain n buf dec' where rd: "rd (decoder g) want = ((n, buf), dec')"
        by (metis prod.exhaust)
      show ?thesis
        using False le inrange rd
        by (auto simp add: samples_generator_send_def want_def [symmetric]
            split: sum.splits dest: frombytes_error)
    qed
  qed
  then show ?thesis using cap by simp
qed

theorem capacity_is_max_default_16384_witness:
  "(16384::int) \<le> max 1024 16384 \<and>
   allocated_buffer_frames (pulls silence_read example_stream [Some 3]) = 16384 \<and>
   fst (samples_generator_send silence_read (pulls silence_read example_stream [Some 3]) (Some 16384)) \<noteq>
     Raised (MiniaudioError ''wanted to read more frames than storage was allocated for'') \<and>
   fst (samples_generator_send silence_read (pulls silence_read example_stream [Some 3]) (Some 16384)) =
     Yielded \<lparr>typecode = CHR ''h'', itemsize = 2, raw = replicate 8 0\<rparr>"
proof -
  have le: "case Some (16384::int) of None \<Rightarrow> True | Some v \<Rightarrow> v \<le> max 1024 16384"
    by simp
  have run: "fst (samples_generator_send silence_read (pulls silence_read example_stream [Some 3])
      (Some 16384)) = Yielded \<lparr>typecode = CHR ''h'', itemsize = 2, raw = replicate 8 0\<rparr>"
    unfolding example_stream_pulled
    by (simp add: samples_generator_send_def silence_read_def example_stream_def frombytes_def
        new_array_def typecode_itemsize_def)
  show ?thesis
    using capacity_is_max_default_16384 [OF disjI1 [OF example_stream_created] refl le,
        of silence_read "[Some 3]"] run
    by simp
qed


subsection \<open>Device callback bridge and lifecycle\<close>

lemma payload_bytes_len:
  "py_len (bytes_from_generator_samples smp) = int (length (buffer_of smp))"
  by (cases smp) (auto simp add: bytes_from_generator_samples_def py_len_def buffer_of_def)

lemma close_result: "snd (close self w) = None"
  by (simp add: close_def Let_def)

lemma close_fields:
  "callback_generator (objects (fst (close self w)) self) = None \<and>
   ma_device (objects (fst (close self w)) self) = None \<and>
   callback_data (fst (close self w)) self = None"
  by (simp add: close_def Let_def set_callback_generator_def split: option.splits)

lemma close_closed:
  assumes "callback_generator (objects w self) = None"
    and "ma_device (objects w self) = None"
    and "callback_data w self = None"
  shows "close self w = (w, None)"
proof -
  have "(objects w)(self := (objects w self)\<lparr>callback_generator := None\<rparr>) = objects w"
    using assms(1) by (auto simp add: fun_eq_iff)
  then show ?thesis
    using assms by (simp add: close_def Let_def set_callback_generator_def)
qed

text \<open>
  C1. Take a playback device bound to a routine, and a hardware invocation asking for
  \<open>framecount\<close> frames on which the routine yields a payload of more than
  \<open>framecount * sample_width * nchannels\<close> bytes (that bound not being negative). The
  data callback raises the overflow error; the binding is cleared when it does; nothing
  is copied to the output, the native device is neither stopped nor released; and a
  following \<^verbatim>\<open>start\<close> with a new routine binds it (without error when the native start
  succeeds).
\<close>

theorem playback_overflow_unbinds:
  assumes "cls (objects w self) = PlaybackDevice"
    and "callback_generator (objects w self) = Some g"
    and "send g (Framecount framecount) = (Yielded smp, g')"
    and "0 \<le> framecount * dev_sample_width (objects w self) * dev_nchannels (objects w self)"
    and "int (length (buffer_of smp)) >
           framecount * dev_sample_width (objects w self) * dev_nchannels (objects w self)"
    and "data_callback self output input framecount w = (w', output', err)"
  shows "err = Some (MiniaudioError ''number of frames from callback exceeds maximum'') \<and>
         callback_generator (objects w' self) = None \<and>
         output' = output \<and>
         ma_device (objects w' self) = ma_device (objects w self) \<and>
         native_calls w' = native_calls w \<and>
         callback_data w' = callback_data w \<and>
         callback_generator (objects (fst (start self (Generator g2) result w')) self) = Some g2 \<and>
         (ma_device (objects w self) \<noteq> None \<and> result = MA_SUCCESS \<longrightarrow>
            snd (start self (Generator g2) result w') = None)"
proof -
  let ?bound = "framecount * dev_sample_width (objects w self) * dev_nchannels (objects w self)"
  have big: "py_len (bytes_from_generator_samples smp) > ?bound"
    using assms(5) by (simp add: payload_bytes_len)
  have true: "truthy (bytes_from_generator_samples smp)"
    using big assms(4) by (simp add: truthy_def)
  have res: "(w', output', err) =
      (set_callback_generator self None (set_callback_generator self (Some g') w), output,
       Some (MiniaudioError ''number of frames from callback exceeds maximum''))"
    using assms(1,2,3,6) big true
    by (simp add: data_callback_def playback_data_callback_def)
  then have w': "w' = set_callback_generator self None (set_callback_generator self (Some g') w)"
    and out: "output' = output"
    and err: "err = Some (MiniaudioError ''number of frames from callback exceeds maximum'')"
    by simp_all
  show ?thesis
    unfolding w' out err
    by (auto simp add: set_callback_generator_def start_def Let_def split: option.splits)
qed

theorem playback_overflow_unbinds_witness:
  "cls (objects (example_world PlaybackDevice (Bytes [1, 2, 3, 4, 5])) 1) = PlaybackDevice \<and>
   callback_generator (objects (example_world PlaybackDevice (Bytes [1, 2, 3, 4, 5])) 1) =
     Some (repeat_gen (Bytes [1, 2, 3, 4, 5])) \<and>
   send (repeat_gen (Bytes [1, 2, 3, 4, 5])) (Framecount 1) =
     (Yielded (Bytes [1, 2, 3, 4, 5]), repeat_gen (Bytes [1, 2, 3, 4, 5])) \<and>
   int (length (buffer_of (Bytes [1, 2, 3, 4, 5]))) > 1 * 2 * 2 \<and>
   snd (snd (data_callback 1 [0, 0, 0, 0] [] 1 (example_world PlaybackDevice (Bytes [1, 2, 3, 4, 5])))) =
     Some (MiniaudioError ''number of frames from callback exceeds maximum'') \<and>
   callback_generator (objects (fst (data_callback 1 [0, 0, 0, 0] [] 1
     (example_world PlaybackDevice (Bytes [1, 2, 3, 4, 5])))) 1) = None \<and>
   start 1 (Generator finished_gen) MA_SUCCESS (fst (data_callback 1 [0, 0, 0, 0] [] 1
     (example_world PlaybackDevice (Bytes [1, 2, 3, 4, 5])))) =
     (set_callback_generator 1 (Some finished_gen)
        ((example_world PlaybackDevice (Bytes [1, 2, 3, 4, 5]))
           \<lparr>native_calls := [Ma_device_start 7, Ma_device_start 7]\<rparr>), None)"
proof -
  let ?p = "Bytes [1, 2, 3, 4, 5]"
  let ?w = "example_world PlaybackDevice ?p"
  let ?r = "data_callback 1 [0, 0, 0, 0] [] 1 ?w"
  have h1: "cls (objects ?w 1) = PlaybackDevice"
    and h2: "callback_generator (objects ?w 1) = Some (repeat_gen ?p)"
    and h4: "0 \<le> 1 * dev_sample_width (objects ?w 1) * dev_nchannels (objects ?w 1)"
    and h5: "int (length (buffer_of ?p)) > 1 * dev_sample_width (objects ?w 1) * dev_nchannels (objects ?w 1)"
    by (simp_all add: example_world_def example_device_def buffer_of_def)
  have h3: "send (repeat_gen ?p) (Framecount 1) = (Yielded ?p, repeat_gen ?p)"
    by simp
  have h6: "?r = (fst ?r, fst (snd ?r), snd (snd ?r))"
    by simp
  note t = playback_overflow_unbinds [OF h1 h2 h3 h4 h5 h6, of finished_gen MA_SUCCESS]
  have run: "fst ?r = set_callback_generator 1 None (set_callback_generator 1 (Some (repeat_gen ?p)) ?w)"
    by (simp add: data_callback_def playback_data_callback_def example_world_def example_device_def
        truthy_def py_len_def bytes_from_generator_samples_def set_callback_generator_def)
  have st: "start 1 (Generator finished_gen) MA_SUCCESS (fst ?r) =
     (set_callback_generator 1 (Some finished_gen)
        (?w\<lparr>native_calls := [Ma_device_start 7, Ma_device_start 7]\<rparr>), None)"
    unfolding run
    by (simp add: start_def example_world_def example_device_def set_callback_generator_def Let_def)
  show ?thesis
    using t h1 h2 h3 st by (simp add: buffer_of_def)
qed

text \<open>
  C2, evaluated at a failing input. A duplex stream with 16-bit samples and two playback
  channels is asked for one frame, so the hardware output buffer holds 4 bytes; here it is
  followed in memory by two bytes of value 9. The routine yields 6 bytes. The duplex
  callback checks no bound: it raises nothing and copies all 6 bytes, overwriting the two
  bytes behind the buffer.
\<close>

theorem duplex_overflow_copied:
  "data_callback 1 [0, 0, 0, 0, 9, 9] [0, 0, 0, 0] 1
     (example_world DuplexStream (Bytes [1, 2, 3, 4, 5, 6])) =
   (set_callback_generator 1 (Some (repeat_gen (Bytes [1, 2, 3, 4, 5, 6])))
      (example_world DuplexStream (Bytes [1, 2, 3, 4, 5, 6])),
    [1, 2, 3, 4, 5, 6], None)"
  by (simp add: data_callback_def duplex_data_callback_def example_world_def example_device_def
      set_callback_generator_def truthy_def py_len_def bytes_from_generator_samples_def
      buffer_of_def memmove_def)

text \<open>
  C3, as the code has it. For every device, \<^verbatim>\<open>stop()\<close> clears the routine binding
  (\<open>callback_generator\<close> is \<open>None\<close> afterwards, whether \<^verbatim>\<open>stop()\<close> returns or raises) and
  asks the native library to halt delivery; it returns without error when the native stop
  succeeds.
\<close>

theorem stop_unbinds:
  "callback_generator (objects (fst (stop self result w)) self) = None \<and>
   (ma_device (objects w self) = Some h \<longrightarrow>
      native_calls (fst (stop self result w)) = native_calls w @ [Ma_device_stop h] \<and>
      (result = MA_SUCCESS \<longrightarrow> snd (stop self result w) = None))"
  by (auto simp add: stop_def set_callback_generator_def Let_def split: option.splits)

theorem stop_unbinds_witness:
  "ma_device (objects (example_world CaptureDevice PyNone) 1) = Some 7 \<and>
   callback_generator (objects (fst (stop 1 MA_SUCCESS (example_world CaptureDevice PyNone))) 1) = None \<and>
   native_calls (fst (stop 1 MA_SUCCESS (example_world CaptureDevice PyNone))) =
     [Ma_device_start 7, Ma_device_stop 7] \<and>
   snd (stop 1 MA_SUCCESS (example_world CaptureDevice PyNone)) = None"
  using stop_unbinds [of 1 MA_SUCCESS "example_world CaptureDevice PyNone" 7]
  by (simp add: example_world_def example_device_def)

text \<open>
  C3 as stated fails: a started playback device with a bound routine has no routine bound
  after \<^verbatim>\<open>stop()\<close> has returned.
\<close>

theorem stop_counterexample:
  "callback_generator (objects (example_world PlaybackDevice (Bytes [1])) 1) =
     Some (repeat_gen (Bytes [1])) \<and>
   snd (stop 1 MA_SUCCESS (example_world PlaybackDevice (Bytes [1]))) = None \<and>
   callback_generator (objects (fst (stop 1 MA_SUCCESS (example_world PlaybackDevice (Bytes [1])))) 1) =
     None"
  by (simp add: stop_def example_world_def example_device_def set_callback_generator_def)

text \<open>
  C6. For every device, \<^verbatim>\<open>close()\<close> never raises; afterwards no routine is bound, the
  native device is released (uninitialised once, if there was one) and the device is no
  longer registered. A second \<^verbatim>\<open>close()\<close> changes nothing and does not raise. The closed
  state is terminal: \<^verbatim>\<open>start\<close> and \<^verbatim>\<open>stop\<close> fail on it and the native device stays released.
\<close>

theorem close_idempotent:
  "snd (close self w) = None \<and>
   close self (fst (close self w)) = (fst (close self w), None) \<and>
   callback_generator (objects (fst (close self w)) self) = None \<and>
   ma_device (objects (fst (close self w)) self) = None \<and>
   callback_data (fst (close self w)) self = None \<and>
   (ma_device (objects w self) = Some h \<longrightarrow>
      native_calls (fst (close self w)) = native_calls w @ [Ma_device_uninit h]) \<and>
   snd (start self arg result (fst (close self w))) \<noteq> None \<and>
   snd (stop self result (fst (close self w))) \<noteq> None \<and>
   ma_device (objects (fst (start self arg result (fst (close self w)))) self) = None \<and>
   ma_device (objects (fst (stop self result (fst (close self w)))) self) = None"
proof -
  let ?w = "fst (close self w)"
  note f = close_fields [of self w]
  have 1: "close self ?w = (?w, None)"
    using f by (intro close_closed) simp_all
  have 2: "ma_device (objects w self) = Some h \<longrightarrow>
      native_calls ?w = native_calls w @ [Ma_device_uninit h]"
    by (simp add: close_def Let_def set_callback_generator_def)
  have 3: "snd (start self arg result ?w) \<noteq> None \<and>
      ma_device (objects (fst (start self arg result ?w)) self) = None"
    using f by (cases arg) (simp_all add: start_def set_callback_generator_def)
  have 4: "snd (stop self result ?w) \<noteq> None \<and>
      ma_device (objects (fst (stop self result ?w)) self) = None"
    using f by (simp add: stop_def set_callback_generator_def)
  show ?thesis
    using f 1 2 3 4 close_result [of self w] by simp
qed

theorem close_idempotent_witness:
  "ma_device (objects (example_world DuplexStream PyNone) 1) = Some 7 \<and>
   snd (close 1 (example_world DuplexStream PyNone)) = None \<and>
   native_calls (fst (close 1 (example_world DuplexStream PyNone))) =
     [Ma_device_start 7, Ma_device_uninit 7] \<and>
   close 1 (fst (close 1 (example_world DuplexStream PyNone))) =
     (fst (close 1 (example_world DuplexStream PyNone)), None) \<and>
   native_calls (fst (close 1 (fst (close 1 (example_world DuplexStream PyNone))))) =
     [Ma_device_start 7, Ma_device_uninit 7]"
proof -
  let ?w = "example_world DuplexStream PyNone"
  have h: "ma_device (objects ?w 1) = Some 7"
    by (simp add: example_world_def example_device_def)
  have n: "native_calls ?w = [Ma_device_start 7]"
    by (simp add: example_world_def)
  show ?thesis
    using close_idempotent [of 1 ?w 7 NotAGenerator MA_SUCCESS] h n by simp
qed

text \<open>
  C9. When the hardware asks for 0 frames, or the device's user-data pointer is null,
  \<^verbatim>\<open>internal_data_callback\<close> returns at once: no exception (also when the registry has no
  entry for the device, where a lookup would raise), the state with all devices and their
  routines is as before, and the output memory is untouched.
\<close>

theorem bridge_returns_early:
  "framecount = 0 \<or> pUserData = None \<Longrightarrow>
     internal_data_callback pUserData output input framecount w = (w, output, None)"
  by (simp add: internal_data_callback_def)

theorem bridge_returns_early_witness:
  "internal_data_callback (Some 1) [0, 0, 0, 0] [] 0 (example_world PlaybackDevice (Bytes [1])) =
     (example_world PlaybackDevice (Bytes [1]), [0, 0, 0, 0], None) \<and>
   internal_data_callback None [0, 0, 0, 0] [] 1 (example_world PlaybackDevice (Bytes [1])) =
     (example_world PlaybackDevice (Bytes [1]), [0, 0, 0, 0], None) \<and>
   internal_data_callback (Some 2) [0, 0, 0, 0] [] 0 (example_world PlaybackDevice (Bytes [1])) =
     (example_world PlaybackDevice (Bytes [1]), [0, 0, 0, 0], None) \<and>
   snd (snd (internal_data_callback (Some 2) [0, 0, 0, 0] [] 1 (example_world PlaybackDevice (Bytes [1])))) =
     Some KeyError"
  using
    bridge_returns_early [of 0 "Some 1" "[0, 0, 0, 0]" "[]" "example_world PlaybackDevice (Bytes [1])"]
    bridge_returns_early [of 1 None "[0, 0, 0, 0]" "[]" "example_world PlaybackDevice (Bytes [1])"]
    bridge_returns_early [of 0 "Some 2" "[0, 0, 0, 0]" "[]" "example_world PlaybackDevice (Bytes [1])"]
  by (simp add: internal_data_callback_def example_world_def)


end
